theory Spec2Isabelle
  imports Main "HOL-Library.Word" "HOL-Library.Sublist"
begin

unbundle bit_operations_syntax

text \<open>
  A shallow embedding of the session lifecycle of claude-squad: the tmux session of
  \<open>session/tmux/tmux.go\<close> (names, status monitor, attach and detach, start, close and
  clean-up) and, of package \<open>app\<close>, the metadata tick and the key handler of the UI.
  State is passed explicitly, what the operating system and the absent packages answer is a
  parameter, an error is a value and a panic is \<open>None\<close>.
\<close>

section \<open>Strings, bytes and the standard-library functions the sources call\<close>

text \<open>
  A Go \<open>string\<close> and a Go \<open>[]byte\<close> are byte sequences; both are modelled as
  \<^typ>\<open>string\<close> (a list of 8-bit characters), so \<open>length\<close> is Go's \<open>len\<close>: it
  counts bytes. A Go \<open>error\<close> is modelled by its message; \<open>nil\<close> is \<open>None\<close>.
\<close>

type_synonym byte = "8 word"
type_synonym w32 = "32 word"

text \<open>\<open>strings.HasPrefix\<close> and \<open>strings.Contains\<close>.\<close>

fun HasPrefix :: "string \<Rightarrow> string \<Rightarrow> bool" where
  "HasPrefix s [] = True"
| "HasPrefix [] (p # ps) = False"
| "HasPrefix (c # cs) (p # ps) = (c = p \<and> HasPrefix cs ps)"

fun Contains :: "string \<Rightarrow> string \<Rightarrow> bool" where
  "Contains [] sub = HasPrefix [] sub"
| "Contains (c # cs) sub = (HasPrefix (c # cs) sub \<or> Contains cs sub)"

text \<open>The decimal rendering of a number (\<open>%d\<close> in \<open>fmt.Errorf\<close>).\<close>

function itoa :: "nat \<Rightarrow> string" where
  "itoa n =
     (if n < 10 then [''0123456789'' ! n] else itoa (n div 10) @ [''0123456789'' ! (n mod 10)])"
  by pat_completeness auto
termination
  by (relation "measure id") auto

text \<open>
  The conversion \<open>string(runes)\<close> of a \<open>[]rune\<close>: every rune is encoded in UTF-8, as
  \<open>utf8.AppendRune\<close> does; a negative rune, a surrogate half and a rune beyond
  \<open>U+10FFFF\<close> are encoded as \<open>U+FFFD\<close>. A rune is an \<open>int32\<close>; it is modelled as an
  integer, and nothing here computes with it beyond its range.
\<close>

definition EncodeRune :: "int \<Rightarrow> string" where
  "EncodeRune r =
     (if 0 \<le> r \<and> r \<le> 0x7F then [char_of r]
      else if 0 \<le> r \<and> r \<le> 0x7FF then [char_of (0xC0 + r div 64), char_of (0x80 + r mod 64)]
      else if r < 0 \<or> 0x10FFFF < r \<or> (0xD800 \<le> r \<and> r \<le> 0xDFFF)
      then [CHR 0xEF, CHR 0xBF, CHR 0xBD]
      else if r \<le> 0xFFFF
      then [char_of (0xE0 + r div 4096), char_of (0x80 + r div 64 mod 64),
            char_of (0x80 + r mod 64)]
      else [char_of (0xF0 + r div 262144), char_of (0x80 + r div 4096 mod 64),
            char_of (0x80 + r div 64 mod 64), char_of (0x80 + r mod 64)])"

definition string_of_runes :: "int list \<Rightarrow> string" where
  "string_of_runes rs = concat (map EncodeRune rs)"

subsection \<open>SHA-256 (\<open>crypto/sha256\<close>, FIPS 180-4)\<close>

definition rotr :: "nat \<Rightarrow> w32 \<Rightarrow> w32" where
  "rotr n w = (drop_bit n w) OR (push_bit (32 - n) w)"

text \<open>The round constants, eight to a row.\<close>

definition K256 :: "w32 list" where
  "K256 = concat [
     [0x428a2f98, 0x71374491, 0xb5c0fbcf, 0xe9b5dba5, 0x3956c25b, 0x59f111f1, 0x923f82a4, 0xab1c5ed5],
     [0xd807aa98, 0x12835b01, 0x243185be, 0x550c7dc3, 0x72be5d74, 0x80deb1fe, 0x9bdc06a7, 0xc19bf174],
     [0xe49b69c1, 0xefbe4786, 0x0fc19dc6, 0x240ca1cc, 0x2de92c6f, 0x4a7484aa, 0x5cb0a9dc, 0x76f988da],
     [0x983e5152, 0xa831c66d, 0xb00327c8, 0xbf597fc7, 0xc6e00bf3, 0xd5a79147, 0x06ca6351, 0x14292967],
     [0x27b70a85, 0x2e1b2138, 0x4d2c6dfc, 0x53380d13, 0x650a7354, 0x766a0abb, 0x81c2c92e, 0x92722c85],
     [0xa2bfe8a1, 0xa81a664b, 0xc24b8b70, 0xc76c51a3, 0xd192e819, 0xd6990624, 0xf40e3585, 0x106aa070],
     [0x19a4c116, 0x1e376c08, 0x2748774c, 0x34b0bcb5, 0x391c0cb3, 0x4ed8aa4a, 0x5b9cca4f, 0x682e6ff3],
     [0x748f82ee, 0x78a5636f, 0x84c87814, 0x8cc70208, 0x90befffa, 0xa4506ceb, 0xbef9a3f7, 0xc67178f2]]"

definition H256 :: "w32 list" where
  "H256 = [0x6a09e667, 0xbb67ae85, 0x3c6ef372, 0xa54ff53a,
           0x510e527f, 0x9b05688c, 0x1f83d9ab, 0x5be0cd19]"

definition Ch :: "w32 \<Rightarrow> w32 \<Rightarrow> w32 \<Rightarrow> w32" where
  "Ch x y z = (x AND y) XOR (NOT x AND z)"

definition Maj :: "w32 \<Rightarrow> w32 \<Rightarrow> w32 \<Rightarrow> w32" where
  "Maj x y z = (x AND y) XOR (x AND z) XOR (y AND z)"

definition bsig0 :: "w32 \<Rightarrow> w32" where
  "bsig0 x = rotr 2 x XOR rotr 13 x XOR rotr 22 x"

definition bsig1 :: "w32 \<Rightarrow> w32" where
  "bsig1 x = rotr 6 x XOR rotr 11 x XOR rotr 25 x"

definition ssig0 :: "w32 \<Rightarrow> w32" where
  "ssig0 x = rotr 7 x XOR rotr 18 x XOR drop_bit 3 x"

definition ssig1 :: "w32 \<Rightarrow> w32" where
  "ssig1 x = rotr 17 x XOR rotr 19 x XOR drop_bit 10 x"

fun be_words :: "byte list \<Rightarrow> w32 list" where
  "be_words (a # b # c # d # r) =
     (push_bit 24 (ucast a) OR push_bit 16 (ucast b) OR push_bit 8 (ucast c) OR ucast d)
       # be_words r"
| "be_words r = []"

fun schedule :: "nat \<Rightarrow> w32 list \<Rightarrow> w32 list" where
  "schedule 0 ws = ws"
| "schedule (Suc n) ws =
     (let t = length ws in
      schedule n (ws @ [ssig1 (ws ! (t - 2)) + ws ! (t - 7) + ssig0 (ws ! (t - 15)) + ws ! (t - 16)]))"

fun round256 :: "w32 list \<Rightarrow> w32 \<times> w32 \<Rightarrow> w32 list" where
  "round256 [a, b, c, d, e, f, g, h] (k, w) =
     (let t1 = h + bsig1 e + Ch e f g + k + w; t2 = bsig0 a + Maj a b c
      in [t1 + t2, a, b, c, d + t1, e, f, g])"
| "round256 s kw = s"

definition compress :: "w32 list \<Rightarrow> byte list \<Rightarrow> w32 list" where
  "compress hs blk = map2 (+) hs (foldl round256 hs (zip K256 (schedule 48 (be_words blk))))"

text \<open>The length of the message in bits, as eight bytes, most significant first.\<close>

definition length_bytes :: "64 word \<Rightarrow> byte list" where
  "length_bytes n = map (\<lambda>i. ucast (drop_bit (8 * i) n)) [7, 6, 5, 4, 3, 2, 1, 0]"

definition pad256 :: "byte list \<Rightarrow> byte list" where
  "pad256 m =
     m @ [0x80] @ replicate ((119 - length m mod 64) mod 64) 0 @
     length_bytes (of_nat (8 * length m))"

fun blocks :: "nat \<Rightarrow> byte list \<Rightarrow> byte list list" where
  "blocks 0 bs = []"
| "blocks (Suc n) bs = take 64 bs # blocks n (drop 64 bs)"

definition word_bytes :: "w32 \<Rightarrow> byte list" where
  "word_bytes w = [ucast (drop_bit 24 w), ucast (drop_bit 16 w), ucast (drop_bit 8 w), ucast w]"

definition sha256 :: "byte list \<Rightarrow> byte list" where
  "sha256 m = (let p = pad256 m in
     concat (map word_bytes (foldl compress H256 (blocks (length p div 64) p))))"


section \<open>The tmux session (\<open>session/tmux/tmux.go\<close>)\<close>

subsection \<open>Data\<close>

text \<open>
  An \<open>*os.File\<close> on a pseudo-terminal: the bytes written to it so far and whether it has
  been closed. A \<open>nil\<close> file is \<open>None\<close>; the methods of \<open>os.File\<close> return an error on
  a nil or closed file.
\<close>

record pty_file =
  written :: string
  closed :: bool

definition File_Write :: "string \<Rightarrow> pty_file option \<Rightarrow> string option \<times> pty_file option" where
  "File_Write bs f =
     (case f of
        None \<Rightarrow> (Some ''invalid argument'', None)
      | Some p \<Rightarrow>
          if closed p then (Some ''file already closed'', Some p)
          else (None, Some (p\<lparr>written := written p @ bs\<rparr>)))"

definition File_Close :: "pty_file option \<Rightarrow> string option \<times> pty_file option" where
  "File_Close f =
     (case f of
        None \<Rightarrow> (Some ''invalid argument'', None)
      | Some p \<Rightarrow>
          if closed p then (Some ''file already closed'', Some p)
          else (None, Some (p\<lparr>closed := True\<rparr>)))"

record statusMonitor =
  prevOutputHash :: "byte list"

text \<open>
  \<open>TmuxSession\<close>. Pointer fields are options. \<open>attachCh\<close> is the index of the channel in
  the store of channels of the \<open>world\<close> below; \<open>wg\<close> is the counter of the wait group.
\<close>

record TmuxSession =
  Name :: string
  sanitizedName :: string
  ptmx :: "pty_file option"
  monitor :: "statusMonitor option"
  attachCh :: "nat option"
  oldState :: "nat option"
  ctx :: "unit option"
  cancel :: "unit option"
  wg :: "nat option"

datatype level = ErrorLog | WarningLog | InfoLog

datatype goroutine = CopyPtyToStdout | StdinLoop | WindowSizeMonitor

text \<open>
  The mutable state outside the session: the lines written to the loggers, the mode of the
  controlling terminal, the channels made so far (\<open>True\<close>: closed) and the goroutines
  started so far.
\<close>

record world =
  logged :: "(level \<times> string) list"
  term_raw :: bool
  chans :: "bool list"
  spawned :: "goroutine list"

text \<open>
  What the operating system answers: the outcome of \<open>tmux capture-pane -t name\<close> (the
  error's text, or the output), of \<open>term.MakeRaw\<close> (the error's text, or the terminal state
  before), of \<open>pty.Start\<close> on \<open>tmux attach-session\<close> and of \<open>term.Restore\<close>.
\<close>

record env =
  capture_pane :: "string \<Rightarrow> string + string"
  make_raw :: "string + nat"
  pty_start :: "string option"
  term_restore :: "string option"

subsection \<open>Names\<close>

definition TmuxPrefix :: string where
  "TmuxPrefix = ''claudesquad-''"

text \<open>The class \<open>\s\<close> of Go's \<open>regexp\<close>: tab, newline, form feed, carriage return, space.\<close>

definition is_space :: "char \<Rightarrow> bool" where
  "is_space c = (c = CHR 0x09 \<or> c = CHR 0x0A \<or> c = CHR 0x0C \<or> c = CHR 0x0D \<or> c = CHR '' '')"

text \<open>
  \<open>regexp.MustCompile(`\s+`).ReplaceAllString(str, "")\<close>: every leftmost, longest run of
  whitespace is replaced by the empty string.
\<close>

function ReplaceAllString_ws :: "string \<Rightarrow> string" where
  "ReplaceAllString_ws [] = []"
| "ReplaceAllString_ws (c # cs) =
     (if is_space c then ReplaceAllString_ws (dropWhile is_space cs)
      else c # ReplaceAllString_ws cs)"
  by pat_completeness auto
termination
  by (relation "measure length") (auto simp: le_imp_less_Suc length_dropWhile_le)

definition toClaudeSquadTmuxName :: "string \<Rightarrow> string" where
  "toClaudeSquadTmuxName str = TmuxPrefix @ ReplaceAllString_ws str"

definition NewTmuxSession :: "string \<Rightarrow> TmuxSession" where
  "NewTmuxSession name =
     \<lparr>Name = name, sanitizedName = toClaudeSquadTmuxName name, ptmx = None, monitor = None,
      attachCh = None, oldState = None, ctx = None, cancel = None, wg = None\<rparr>"

subsection \<open>Restore, keystrokes and the status monitor\<close>

definition newStatusMonitor :: statusMonitor where
  "newStatusMonitor = \<lparr>prevOutputHash = []\<rparr>"

definition Restore :: "env \<Rightarrow> TmuxSession \<Rightarrow> string option \<times> TmuxSession" where
  "Restore e t =
     (case pty_start e of
        Some err \<Rightarrow> (Some (''error opening PTY: '' @ err), t)
      | None \<Rightarrow>
          (None, t\<lparr>ptmx := Some \<lparr>written = [], closed = False\<rparr>,
                   monitor := Some newStatusMonitor\<rparr>))"

definition hash :: "string \<Rightarrow> byte list" where
  "hash s = sha256 (map of_char s)"

definition TapEnter :: "TmuxSession \<Rightarrow> string option \<times> TmuxSession" where
  "TapEnter t =
     (case File_Write [CHR 0x0D] (ptmx t) of
        (Some err, f) \<Rightarrow> (Some (''error sending enter keystroke to PTY: '' @ err), t\<lparr>ptmx := f\<rparr>)
      | (None, f) \<Rightarrow> (None, t\<lparr>ptmx := f\<rparr>))"

definition TapDAndEnter :: "TmuxSession \<Rightarrow> string option \<times> TmuxSession" where
  "TapDAndEnter t =
     (case File_Write [CHR 0x44, CHR 0x0D] (ptmx t) of
        (Some err, f) \<Rightarrow> (Some (''error sending enter keystroke to PTY: '' @ err), t\<lparr>ptmx := f\<rparr>)
      | (None, f) \<Rightarrow> (None, t\<lparr>ptmx := f\<rparr>))"

definition CapturePaneContent :: "env \<Rightarrow> TmuxSession \<Rightarrow> string + string" where
  "CapturePaneContent e t =
     (case capture_pane e (sanitizedName t) of
        Inl err \<Rightarrow> Inl (''error capturing pane content: '' @ err)
      | Inr output \<Rightarrow> Inr output)"

text \<open>
  \<open>HasUpdated\<close>. The result is \<open>None\<close> where the Go code panics: \<open>t.monitor\<close> is nil when
  its field is read (a session that was never restored).
\<close>

definition HasUpdated ::
  "env \<Rightarrow> TmuxSession \<Rightarrow> world \<Rightarrow> ((bool \<times> bool) \<times> TmuxSession \<times> world) option" where
  "HasUpdated e t w =
     (case CapturePaneContent e t of
        Inl err \<Rightarrow>
          Some ((False, False), t,
                w\<lparr>logged := logged w @
                    [(ErrorLog, ''error capturing pane content in status monitor: '' @ err)]\<rparr>)
      | Inr content \<Rightarrow>
          (let hasPrompt = Contains content ''Do you want'' in
           case monitor t of
             None \<Rightarrow> None
           | Some m \<Rightarrow>
               if hash content \<noteq> prevOutputHash m
               then Some ((True, hasPrompt),
                          t\<lparr>monitor := Some (m\<lparr>prevOutputHash := hash content\<rparr>)\<rparr>, w)
               else Some ((False, hasPrompt), t, w)))"

subsection \<open>Attach and Detach\<close>

text \<open>
  Modelled from the spec: \<open>monitorWindowSize\<close> is declared in a file that is not among the
  sources; the spec says that attach "also starts a window-size monitor that forwards host
  terminal resize events to the pty".
\<close>

definition monitorWindowSize :: "TmuxSession \<Rightarrow> world \<Rightarrow> world" where
  "monitorWindowSize t w = w\<lparr>spawned := spawned w @ [WindowSizeMonitor]\<rparr>"

text \<open>
  \<open>Attach\<close> returns the error, or the channel that is closed when detaching has finished.
  The two \<open>go func()\<close> statements start the goroutine that copies the pty to stdout and the
  goroutine that runs the loop \<open>stdinLoop\<close> below.
\<close>

definition Attach :: "env \<Rightarrow> TmuxSession \<Rightarrow> world \<Rightarrow> (string + nat) \<times> TmuxSession \<times> world" where
  "Attach e t w =
     (case make_raw e of
        Inl err \<Rightarrow> (Inl (''error making terminal raw: '' @ err), t, w)
      | Inr st \<Rightarrow>
          (let ch = length (chans w);
               t1 = t\<lparr>oldState := Some st, attachCh := Some ch, wg := Some 1,
                       ctx := Some (), cancel := Some ()\<rparr>;
               w1 = w\<lparr>term_raw := True, chans := chans w @ [False],
                       spawned := spawned w @ [CopyPtyToStdout, StdinLoop]\<rparr>
           in (Inr ch, t1, monitorWindowSize t1 w1)))"

text \<open>
  \<open>Detach\<close>: the body, then the deferred function. The result is \<open>None\<close> where the Go
  code panics: a nil terminal state, cancel function or wait group, or a channel that is nil
  or already closed.
\<close>

definition Detach_body ::
  "env \<Rightarrow> TmuxSession \<Rightarrow> world \<Rightarrow> (string option \<times> TmuxSession \<times> world) option" where
  "Detach_body e t w =
     (case File_Close (ptmx t) of
        (Some err, f) \<Rightarrow> Some (Some (''error closing attach pty session: '' @ err), t\<lparr>ptmx := f\<rparr>, w)
      | (None, f) \<Rightarrow>
          (case Restore e (t\<lparr>ptmx := f\<rparr>) of
             (Some err, t1) \<Rightarrow> Some (Some err, t1, w)
           | (None, t1) \<Rightarrow>
               (case oldState t1 of
                  None \<Rightarrow> None
                | Some st \<Rightarrow>
                    (case term_restore e of
                       Some err \<Rightarrow> Some (Some (''error restoring terminal state: '' @ err), t1, w)
                     | None \<Rightarrow>
                         (case (cancel t1, wg t1) of
                            (Some c, Some n) \<Rightarrow> Some (None, t1, w\<lparr>term_raw := False\<rparr>)
                          | (c, n) \<Rightarrow> None)))))"

definition Detach ::
  "env \<Rightarrow> TmuxSession \<Rightarrow> world \<Rightarrow> (string option \<times> TmuxSession \<times> world) option" where
  "Detach e t w =
     (case Detach_body e t w of
        None \<Rightarrow> None
      | Some (err, t1, w1) \<Rightarrow>
          (case attachCh t1 of
             None \<Rightarrow> None
           | Some ch \<Rightarrow>
               if ch < length (chans w1) \<and> \<not> chans w1 ! ch
               then Some (err,
                          t1\<lparr>attachCh := None, oldState := None, cancel := None, ctx := None,
                             wg := None\<rparr>,
                          w1\<lparr>chans := (chans w1)[ch := True]\<rparr>)
               else None))"

text \<open>
  The loop of the second goroutine of \<open>Attach\<close>. It runs over the reads of stdin that
  happen: each is the result of \<open>os.Stdin.Read(buf)\<close> (an error that is not EOF, EOF, or
  the \<open>nr\<close> bytes read, at most 32) together with whether \<open>timeoutCh\<close>, closed 50 ms after
  the goroutine started, is closed when the \<open>select\<close> runs. When the reads run out the
  loop is waiting in \<open>Read\<close>.
\<close>

datatype read_result = ReadError string | ReadEOF | ReadBytes string

datatype loop_end = Reading | Stopped | Detached | Panicked

fun stdinLoop ::
  "env \<Rightarrow> (read_result \<times> bool) list \<Rightarrow> TmuxSession \<Rightarrow> world \<Rightarrow> loop_end \<times> TmuxSession \<times> world" where
  "stdinLoop e [] t w = (Reading, t, w)"
| "stdinLoop e ((ReadEOF, expired) # rs) t w = (Stopped, t, w)"
| "stdinLoop e ((ReadError err, expired) # rs) t w = stdinLoop e rs t w"
| "stdinLoop e ((ReadBytes bs, expired) # rs) t w =
     (if \<not> expired
      then stdinLoop e rs t (w\<lparr>logged := logged w @ [(ErrorLog, ''nuked first stdin: '' @ bs)]\<rparr>)
      else if length bs = 1 \<and> bs ! 0 = CHR 0x11
      then (case Detach e t w of
              None \<Rightarrow> (Panicked, t, w)
            | Some (Some err, t1, w1) \<Rightarrow>
                (Detached, t1,
                 w1\<lparr>logged := logged w1 @ [(ErrorLog, ''Error detaching from tmux session: '' @ err)]\<rparr>)
            | Some (None, t1, w1) \<Rightarrow> (Detached, t1, w1))
      else stdinLoop e rs (t\<lparr>ptmx := snd (File_Write bs (ptmx t))\<rparr>) w)"

subsection \<open>Cleaning up sessions\<close>

text \<open>
  The error of running a command: an \<open>*exec.ExitError\<close> with its exit code, or any other
  error (the program could not be started).
\<close>

datatype exec_error = ExitError int | OtherError string

datatype cleanup_error = FailedToList exec_error | FailedToKill string exec_error

text \<open>
  The tmux server, as far as \<open>CleanupSessions\<close> meets it: the names of its sessions.
  \<open>tmux ls\<close> prints one line per session that starts with the session's name, and exits
  with code 1 when there is no session; \<open>tmux kill-session -t target\<close> kills the session
  of that name, or else the only session whose name starts with the target.
\<close>

type_synonym tmux_server = "string list"

definition ls_line :: "string \<Rightarrow> string" where
  "ls_line name = name @ '': 1 windows (created Thu Jan  1 00:00:00 1970)'' @ [CHR 0x0A]"

definition tmux_ls :: "tmux_server \<Rightarrow> exec_error + string" where
  "tmux_ls srv = (if srv = [] then Inl (ExitError 1) else Inr (concat (map ls_line srv)))"

definition tmux_kill_session :: "string \<Rightarrow> tmux_server \<Rightarrow> exec_error + tmux_server" where
  "tmux_kill_session target srv =
     (if target \<in> set srv then Inr (remove1 target srv)
      else (case filter (\<lambda>n. HasPrefix n target) srv of
              [n] \<Rightarrow> Inr (remove1 n srv)
            | ns \<Rightarrow> Inl (ExitError 1)))"

definition is_digit :: "char \<Rightarrow> bool" where
  "is_digit c = (c \<in> set ''0123456789'')"

text \<open>
  \<open>regexp.MustCompile(`^claudesquad-\d+`).FindAllString(output, -1)\<close>. Without the flag
  \<open>m\<close> the anchor \<open>^\<close> matches at the beginning of the text only, so there is at most one
  match, at offset 0: the prefix and the longest run of digits after it.
\<close>

definition FindAllString_sessions :: "string \<Rightarrow> string list" where
  "FindAllString_sessions output =
     (let digits = takeWhile is_digit (drop (length TmuxPrefix) output) in
      if HasPrefix output TmuxPrefix \<and> digits \<noteq> [] then [TmuxPrefix @ digits] else [])"

fun kill_matches :: "string list \<Rightarrow> tmux_server \<Rightarrow> cleanup_error option \<times> tmux_server" where
  "kill_matches [] srv = (None, srv)"
| "kill_matches (m # ms) srv =
     (case tmux_kill_session m srv of
        Inl err \<Rightarrow> (Some (FailedToKill m err), srv)
      | Inr srv1 \<Rightarrow> kill_matches ms srv1)"

text \<open>
  \<open>CleanupSessions\<close>, given what \<open>tmux ls\<close> answered (its error, or its output) and the
  server the \<open>kill-session\<close> commands act on.
\<close>

definition CleanupSessions ::
  "exec_error + string \<Rightarrow> tmux_server \<Rightarrow> cleanup_error option \<times> tmux_server" where
  "CleanupSessions ls srv =
     (case ls of
        Inl (ExitError code) \<Rightarrow>
          if code = 1 then (None, srv) else (Some (FailedToList (ExitError code)), srv)
      | Inl (OtherError msg) \<Rightarrow> (Some (FailedToList (OtherError msg)), srv)
      | Inr output \<Rightarrow> kill_matches (FindAllString_sessions output) srv)"

subsection \<open>Starting and closing a session\<close>

text \<open>
  \<open>DoesSessionExist\<close>: \<open>tmux has-session -t=name\<close> succeeds when the server has a session of
  exactly that name.
\<close>

definition DoesSessionExist :: "string \<Rightarrow> tmux_server \<Rightarrow> bool" where
  "DoesSessionExist name srv = (name \<in> set srv)"

definition exec_error_text :: "exec_error \<Rightarrow> string" where
  "exec_error_text err =
     (case err of ExitError code \<Rightarrow> ''exit status '' @ itoa (nat code) | OtherError msg \<Rightarrow> msg)"

definition Close ::
  "TmuxSession \<Rightarrow> tmux_server \<Rightarrow> string option \<times> TmuxSession \<times> tmux_server" where
  "Close t srv =
     (let (errs1, t1) =
            (case ptmx t of
               None \<Rightarrow> ([], t)
             | Some p \<Rightarrow>
                 (case fst (File_Close (ptmx t)) of
                    Some err \<Rightarrow> ([''error closing PTY: '' @ err], t\<lparr>ptmx := None\<rparr>)
                  | None \<Rightarrow> ([], t\<lparr>ptmx := None\<rparr>)));
          (errs, srv1) =
            (case tmux_kill_session (sanitizedName t) srv of
               Inl err \<Rightarrow> (errs1 @ [''error killing tmux session: '' @ exec_error_text err], srv)
             | Inr srv2 \<Rightarrow> (errs1, srv2))
      in case errs of
           [] \<Rightarrow> (None, t1, srv1)
         | [err] \<Rightarrow> (Some err, t1, srv1)
         | several \<Rightarrow>
             (Some (''multiple errors occurred during cleanup:'' @
                    concat (map (\<lambda>err. [CHR 0x0A] @ ''  - '' @ err) errs)), t1, srv1))"

definition ProgramClaude :: string where
  "ProgramClaude = ''claude''"

definition ProgramAider :: string where
  "ProgramAider = ''aider''"

text \<open>
  What the operating system answers to \<open>Start\<close>: the error of \<open>pty.Start\<close> on
  \<open>tmux new-session\<close>, whether the server has the new session afterwards (when \<open>pty.Start\<close>
  succeeded: before the two seconds of polling are over), and the outcome of
  \<open>tmux capture-pane\<close> in each iteration of the sweep for the first-run prompt.
\<close>

record start_env =
  new_session_err :: "string option"
  new_session_created :: bool
  sweep_capture :: "nat \<Rightarrow> string + string"

text \<open>
  The loop that answers the "do you trust the files" screen: \<open>n\<close> iterations are left,
  \<open>k\<close> is the loop variable.
\<close>

fun trust_sweep ::
  "start_env \<Rightarrow> string \<Rightarrow> (TmuxSession \<Rightarrow> string option \<times> TmuxSession) \<Rightarrow> nat \<Rightarrow> nat
     \<Rightarrow> TmuxSession \<Rightarrow> world \<Rightarrow> TmuxSession \<times> world" where
  "trust_sweep se searchString tapFunc 0 k t w = (t, w)"
| "trust_sweep se searchString tapFunc (Suc n) k t w =
     (let (content, w1) =
            (case sweep_capture se k of
               Inl err \<Rightarrow>
                 ([], w\<lparr>logged := logged w @
                        [(ErrorLog, ''could not check '' @ [CHR 0x27] @
                            ''do you trust the files screen'' @ [CHR 0x27] @ '': '' @
                            ''error capturing pane content: '' @ err)]\<rparr>)
             | Inr output \<Rightarrow> (output, w))
      in if Contains content searchString
         then (case tapFunc t of
                 (Some err, t1) \<Rightarrow>
                   (t1, w1\<lparr>logged := logged w1 @
                            [(ErrorLog, ''could not tap enter on trust screen: '' @ err)]\<rparr>)
               | (None, t1) \<Rightarrow> (t1, w1))
         else trust_sweep se searchString tapFunc n (Suc k) t w1)"

definition Start ::
  "env \<Rightarrow> start_env \<Rightarrow> string \<Rightarrow> string \<Rightarrow> TmuxSession \<Rightarrow> tmux_server \<Rightarrow> world
     \<Rightarrow> string option \<times> TmuxSession \<times> tmux_server \<times> world" where
  "Start e se prog workDir t srv w =
     (if DoesSessionExist (sanitizedName t) srv
      then (Some (''tmux session already exists: '' @ sanitizedName t), t, srv, w)
      else
        (let srv1 = (if new_session_created se then srv @ [sanitizedName t] else srv) in
         case new_session_err se of
           Some err \<Rightarrow>
             (if DoesSessionExist (sanitizedName t) srv1
              then (case tmux_kill_session (sanitizedName t) srv1 of
                      Inl cleanupErr \<Rightarrow>
                        (Some (''error starting tmux session: '' @ err @ '' (cleanup error: '' @
                               exec_error_text cleanupErr @ '')''), t, srv1, w)
                    | Inr srv2 \<Rightarrow> (Some (''error starting tmux session: '' @ err), t, srv2, w))
              else (Some (''error starting tmux session: '' @ err), t, srv1, w))
         | None \<Rightarrow>
             (if \<not> DoesSessionExist (sanitizedName t) srv1
              then (case Close t srv1 of
                      (Some cleanupErr, t1, srv2) \<Rightarrow>
                        (Some (''timed out waiting for tmux session: <nil> (cleanup error: '' @
                               cleanupErr @ '')''), t1, srv2, w)
                    | (None, t1, srv2) \<Rightarrow>
                        (Some ''timed out waiting for tmux session: <nil>'', t1, srv2, w))
              else
                (case Restore e t of
                   (Some err, t1) \<Rightarrow>
                     (case Close t1 srv1 of
                        (Some cleanupErr, t2, srv2) \<Rightarrow>
                          (Some (''error restoring tmux session: '' @ err @ '' (cleanup error: '' @
                                 cleanupErr @ '')''), t2, srv2, w)
                      | (None, t2, srv2) \<Rightarrow>
                          (Some (''error restoring tmux session: '' @ err), t2, srv2, w))
                 | (None, t1) \<Rightarrow>
                     (if prog = ProgramClaude \<or> Contains prog ProgramAider
                      then
                        (let (t2, w2) =
                               (if prog \<noteq> ProgramClaude
                                then trust_sweep se ''Open documentation url for more info''
                                       TapDAndEnter 10 0 t1 w
                                else trust_sweep se ''Do you trust the files in this folder?''
                                       TapEnter 5 0 t1 w)
                         in (None, t2, srv1, w2))
                      else (None, t1, srv1, w))))))"

section \<open>The instance (package \<open>session\<close>)\<close>

text \<open>
  Modelled from the spec: the file that declares \<open>session.Instance\<close> is not among the
  sources. The record holds the attributes of an Instance in the spec's data model that the
  ticker and the key handler read or write; \<open>Status\<close> is "one of Running, Ready, Loading,
  Paused".
\<close>

datatype Status = Running | Ready | Loading | Paused

text \<open>
  Modelled from the spec: the cached \<open>diff_stats\<close> of an Instance, "\<open>{added, removed,
  content}\<close> against host branch".
\<close>

record DiffStats =
  Added :: int
  Removed :: int
  Content :: string

text \<open>
  Modelled from the spec: the attributes \<open>title\<close>, \<open>path\<close>, \<open>program\<close>, \<open>status\<close>,
  \<open>started\<close>, \<open>auto_yes\<close>, \<open>diff_stats\<close> and \<open>tmux\<close> of an Instance; a nil
  \<open>diff_stats\<close> is \<open>None\<close>.
\<close>

record Instance =
  Title :: string
  Path :: string
  Program :: string
  Status :: Status
  started :: bool
  AutoYes :: bool
  diffStats :: "DiffStats option"
  tmuxSession :: TmuxSession

text \<open>
  Modelled from the spec: package \<open>keys\<close> is "out of scope" there and not among the
  sources; these are the key names that \<open>app\<close> and \<open>ui/menu.go\<close> mention.
\<close>

datatype KeyName =
  KeyUp | KeyDown | KeyEnter | KeyNew | KeyKill | KeyQuit | KeySubmit | KeySubmitName
  | KeyTab | KeyCheckout | KeyPause | KeyResume | KeyPrompt | KeyShiftUp | KeyShiftDown

text \<open>
  Modelled from the spec: \<open>started\<close> is "true once PTY has been successfully launched at
  least once".
\<close>

definition Instance_Started :: "Instance \<Rightarrow> bool" where
  "Instance_Started i = started i"

text \<open>Modelled from the spec: an Instance is paused when its status is \<open>Paused\<close>.\<close>

definition Instance_Paused :: "Instance \<Rightarrow> bool" where
  "Instance_Paused i = (Status i = Paused)"

text \<open>Modelled from the spec: the ticker "writes each Instance's own status field".\<close>

definition SetStatus :: "Status \<Rightarrow> Instance \<Rightarrow> Instance" where
  "SetStatus st i = i\<lparr>Status := st\<rparr>"

text \<open>
  Modelled from the spec: "\<open>HasUpdated() \<rightarrow> (updated, has_prompt)\<close> -- forwards to PTY
  Session".
\<close>

definition Instance_HasUpdated ::
  "env \<Rightarrow> Instance \<Rightarrow> world \<Rightarrow> ((bool \<times> bool) \<times> Instance \<times> world) option" where
  "Instance_HasUpdated e i w =
     (case HasUpdated e (tmuxSession i) w of
        None \<Rightarrow> None
      | Some (r, t, w1) \<Rightarrow> Some (r, i\<lparr>tmuxSession := t\<rparr>, w1))"

text \<open>
  Modelled from the spec: "\<open>TapEnter()\<close> -- used by the ticker to auto-accept confirmations
  when \<open>auto_yes\<close>", and \<open>auto_yes\<close> is "if true, confirmation prompts are tapped
  automatically". The ticker uses no result of the call; the spec does not say where the
  error of the session's \<open>TapEnter\<close> goes, and the model logs it.
\<close>

definition Instance_TapEnter :: "Instance \<Rightarrow> world \<Rightarrow> Instance \<times> world" where
  "Instance_TapEnter i w =
     (if \<not> AutoYes i then (i, w)
      else (case TapEnter (tmuxSession i) of
              (Some err, t) \<Rightarrow>
                (i\<lparr>tmuxSession := t\<rparr>,
                 w\<lparr>logged := logged w @ [(ErrorLog, ''error tapping enter: '' @ err)]\<rparr>)
            | (None, t) \<Rightarrow> (i\<lparr>tmuxSession := t\<rparr>, w)))"

text \<open>
  Modelled from the spec: "\<open>UpdateDiffStats()\<close> -- refresh cached diff; called from the
  ticker", where the worktree's \<open>diff()\<close> gives the statistics or an error. The first
  argument is what the worktree of the instance of that title answers.
\<close>

definition UpdateDiffStats ::
  "(string \<Rightarrow> string + DiffStats) \<Rightarrow> Instance \<Rightarrow> string option \<times> Instance" where
  "UpdateDiffStats worktree_diff i =
     (case worktree_diff (Title i) of
        Inl err \<Rightarrow> (Some err, i)
      | Inr d \<Rightarrow> (None, i\<lparr>diffStats := Some d\<rparr>))"

text \<open>
  Modelled from the spec: "\<open>SetTitle(title)\<close> -- validates nonempty, \<open>\<le>\<close> 32 chars,
  unique; computes derived sanitized names; disallowed after \<open>started\<close>". The first argument
  holds the titles of the other instances. The length is \<open>len(title)\<close>, as in the spec's
  "\<open>1 \<le> len(r.title) \<le> 32\<close>" and in the test that \<open>handleKeyPress\<close> makes before it
  calls \<open>SetTitle\<close>.
\<close>

definition SetTitle :: "string list \<Rightarrow> string \<Rightarrow> Instance \<Rightarrow> string + Instance" where
  "SetTitle others title i =
     (if started i then Inl ''cannot change title of a started instance''
      else if title = [] then Inl ''title cannot be empty''
      else if length title > 32 then Inl ''title cannot be longer than 32 characters''
      else if title \<in> set others then Inl ''title is already in use''
      else Inr (i\<lparr>Title := title, tmuxSession := NewTmuxSession title\<rparr>))"

section \<open>The application (package \<open>app\<close>)\<close>

subsection \<open>The metadata tick of \<open>home.Update\<close>\<close>

text \<open>
  The body of the loop of the case \<open>tickUpdateMetadataMessage\<close> for one instance. \<open>None\<close>
  is the panic of \<open>HasUpdated\<close>.
\<close>

definition tickInstance ::
  "env \<Rightarrow> (string \<Rightarrow> string + DiffStats) \<Rightarrow> Instance \<Rightarrow> world \<Rightarrow> (Instance \<times> world) option" where
  "tickInstance e worktree_diff instance w =
     (if \<not> Instance_Started instance \<or> Instance_Paused instance then Some (instance, w)
      else
        (case Instance_HasUpdated e instance w of
           None \<Rightarrow> None
         | Some ((updated, prompt), i1, w1) \<Rightarrow>
             (let (i2, w2) =
                    (if updated then (SetStatus Running i1, w1)
                     else if prompt then Instance_TapEnter i1 w1
                     else (SetStatus Ready i1, w1))
              in case UpdateDiffStats worktree_diff i2 of
                   (Some err, i3) \<Rightarrow>
                     Some (i3, w2\<lparr>logged := logged w2 @
                                  [(WarningLog, ''could not update diff stats: '' @ err)]\<rparr>)
                 | (None, i3) \<Rightarrow> Some (i3, w2))))"


subsection \<open>The model of the UI\<close>

datatype state = stateDefault | stateNew | statePrompt

datatype MenuState = StateDefault | StateNewInstance | StatePrompt

text \<open>
  \<open>ui.Menu\<close>, as far as the key handler writes it: its state and the key that is pressed
  (\<open>None\<close> is \<open>-1\<close>). Its options, which \<open>updateOptions\<close> derives for rendering, are
  left out.
\<close>

record Menu =
  menu_state :: MenuState
  keyDown :: "KeyName option"

definition Menu_Keydown :: "KeyName \<Rightarrow> Menu \<Rightarrow> Menu" where
  "Menu_Keydown name m = m\<lparr>keyDown := Some name\<rparr>"

definition Menu_SetState :: "MenuState \<Rightarrow> Menu \<Rightarrow> Menu" where
  "Menu_SetState st m = m\<lparr>menu_state := st\<rparr>"

text \<open>
  Modelled from the spec: \<open>ui.List\<close> is not among the sources; it is "the list held by the
  UI", the single owner of the instances: the instances in their order, the index of the
  selected one, and the titles that the finalizers have registered.
\<close>

record List =
  items :: "Instance list"
  selectedIdx :: nat
  registered :: "string list"

text \<open>Modelled from the spec: the number of instances of the list of the UI.\<close>

definition NumInstances :: "List \<Rightarrow> nat" where
  "NumInstances l = length (items l)"

text \<open>Modelled from the spec: the instances of the list of the UI, in their order.\<close>

definition GetInstances :: "List \<Rightarrow> Instance list" where
  "GetInstances l = items l"

text \<open>
  Modelled from the spec: the new instance joins the list of the UI. The key handler reads
  the instance it has just added at index \<open>NumInstances() - 1\<close>, so it is appended.
\<close>

definition AddInstance :: "Instance \<Rightarrow> List \<Rightarrow> List" where
  "AddInstance i l = l\<lparr>items := items l @ [i]\<rparr>"

text \<open>Modelled from the spec: the selection of the list of the UI is set to an index.\<close>

definition SetSelectedInstance :: "nat \<Rightarrow> List \<Rightarrow> List" where
  "SetSelectedInstance idx l = l\<lparr>selectedIdx := idx\<rparr>"

text \<open>
  Modelled from the spec: the selected instance of the list of the UI, or nil when there is
  none.
\<close>

definition GetSelectedInstance :: "List \<Rightarrow> Instance option" where
  "GetSelectedInstance l =
     (if selectedIdx l < length (items l) then Some (items l ! selectedIdx l) else None)"

text \<open>
  Modelled from the spec: the text-input overlay is not among the sources; the key handler
  makes one with a title and an initial value, and asks whether it was submitted and for its
  value.
\<close>

record TextInputOverlay =
  overlay_title :: string
  overlay_value :: string
  overlay_submitted :: bool

text \<open>Modelled from the spec: a new overlay for text input, not yet submitted.\<close>

definition NewTextInputOverlay :: "string \<Rightarrow> string \<Rightarrow> TextInputOverlay" where
  "NewTextInputOverlay title v =
     \<lparr>overlay_title = title, overlay_value = v, overlay_submitted = False\<rparr>"

text \<open>
  \<open>tea.KeyMsg\<close>: the type of the key, its runes and what \<open>msg.String()\<close> gives.
\<close>

datatype KeyType =
  tea_KeyEnter | tea_KeyRunes | tea_KeyBackspace | tea_KeySpace | tea_KeyEsc | tea_KeyOther

record KeyMsg =
  msg_Type :: KeyType
  msg_Runes :: "int list"
  msg_String :: string

text \<open>
  \<open>tea.Cmd\<close>: the commands the handlers return. \<open>Resend\<close> gives the key message back
  to \<open>Update\<close>; \<open>KeyupAfter500ms\<close> and \<open>HideErrAfter3s\<close> are the timers of
  \<open>keydownCallback\<close> and \<open>showErrorMessageForShortTime\<close>; \<open>MenuSetStateDefault\<close> is the
  closure that sets the menu's state.
\<close>

datatype Cmd =
  CmdNil | Resend KeyMsg | KeyupAfter500ms | HideErrAfter3s | WindowSize | Quit
  | MenuSetStateDefault | tickUpdateMetadataCmd | Batch "Cmd list" | Sequence "Cmd list"

text \<open>
  \<open>home\<close>: the fields that the tick and the key handler read or write. The error box
  holds the error it shows, if any; the context, the spinner, the tabbed window and the
  storage are left out, and the function \<open>newInstanceFinalizer\<close> is applied where the
  handler calls it.
\<close>

record home =
  program :: string
  autoYes :: bool
  lst :: List
  menu :: Menu
  errBox :: "string option"
  state :: state
  promptAfterName :: bool
  textInputOverlay :: "TextInputOverlay option"
  keySent :: bool

text \<open>
  What the packages that are not among the sources answer to the application: the key
  bindings (\<open>keys.GlobalKeyStringsMap\<close>), the diff of an instance's worktree (the error's
  text, or the statistics), the error of \<open>session.NewInstance\<close>, the outcome of
  \<open>Instance.Start\<close>, the error of \<open>Storage.SaveInstances\<close>, the list's \<open>Kill\<close>, the
  overlay's \<open>HandleKeyPress\<close>, the outcome of \<open>Instance.SendPrompt\<close>, and what the key
  handler does for the key names whose cases call only such packages.
\<close>

record app =
  GlobalKeyStringsMap :: "string \<Rightarrow> KeyName option"
  worktree_diff :: "string \<Rightarrow> string + DiffStats"
  new_instance_err :: "string option"
  instance_Start :: "Instance \<Rightarrow> string + Instance"
  save_instances_err :: "Instance list \<Rightarrow> string option"
  list_Kill :: "List \<Rightarrow> List"
  overlay_HandleKeyPress :: "KeyMsg \<Rightarrow> TextInputOverlay \<Rightarrow> bool \<times> TextInputOverlay"
  send_prompt :: "string \<Rightarrow> Instance \<Rightarrow> string + Instance"
  other_key :: "KeyName \<Rightarrow> home \<Rightarrow> home \<times> Cmd"

definition GlobalInstanceLimit :: nat where
  "GlobalInstanceLimit = 10"

definition showErrorMessageForShortTime :: "string \<Rightarrow> home \<Rightarrow> home \<times> Cmd" where
  "showErrorMessageForShortTime err m = (m\<lparr>errBox := Some err\<rparr>, HideErrAfter3s)"


subsection \<open>\<open>home.handleKeyPress\<close>\<close>

text \<open>
  Modelled from the spec: \<open>session.NewInstance\<close> is not among the sources; an "Instance is
  created in memory (unstarted)" from its options.
\<close>

definition NewInstance :: "app \<Rightarrow> string \<Rightarrow> string \<Rightarrow> string \<Rightarrow> string + Instance" where
  "NewInstance a title path prog =
     (case new_instance_err a of
        Some err \<Rightarrow> Inl err
      | None \<Rightarrow>
          Inr \<lparr>Title = title, Path = path, Program = prog, Status = Ready, started = False,
               AutoYes = False, diffStats = None, tmuxSession = NewTmuxSession title\<rparr>)"

text \<open>
  Modelled from the spec: the function that \<open>AddInstance\<close> returns is not among the
  sources; the comment on \<open>newInstanceFinalizer\<close> says that it "registers the new instance
  in the list after the instance has been started".
\<close>

definition newInstanceFinalizer :: "Instance \<Rightarrow> List \<Rightarrow> List" where
  "newInstanceFinalizer i l = l\<lparr>registered := registered l @ [Title i]\<rparr>"

text \<open>
  The instances are pointers: a write to the instance being named is a write to the last
  item of the list, and a write to the selected instance is a write to the selected item.
\<close>

definition set_last :: "Instance \<Rightarrow> List \<Rightarrow> List" where
  "set_last i l = l\<lparr>items := (items l)[length (items l) - 1 := i]\<rparr>"

definition set_selected :: "Instance \<Rightarrow> List \<Rightarrow> List" where
  "set_selected i l = l\<lparr>items := (items l)[selectedIdx l := i]\<rparr>"

definition over_limit_error :: string where
  "over_limit_error =
     ''you can'' @ [CHR 0x27] @ ''t create more than '' @ itoa GlobalInstanceLimit @ '' instances''"

definition handleQuit :: "app \<Rightarrow> home \<Rightarrow> home \<times> Cmd" where
  "handleQuit a m =
     (case save_instances_err a (GetInstances (lst m)) of
        Some err \<Rightarrow> showErrorMessageForShortTime err m
      | None \<Rightarrow> (m, Quit))"

text \<open>
  The branch \<open>m.state == stateNew\<close>. \<open>None\<close> is the panic of indexing an empty list of
  instances.
\<close>

definition handleKeyPress_stateNew :: "app \<Rightarrow> home \<Rightarrow> KeyMsg \<Rightarrow> (home \<times> Cmd) option" where
  "handleKeyPress_stateNew a m msg =
     (if msg_String msg = ''ctrl+c''
      then Some (m\<lparr>state := stateDefault, promptAfterName := False, lst := list_Kill a (lst m)\<rparr>,
                 WindowSize)
      else if NumInstances (lst m) = 0 then None
      else
        (let instance = GetInstances (lst m) ! (NumInstances (lst m) - 1);
             others = map Title (butlast (GetInstances (lst m)))
         in case msg_Type msg of
              tea_KeyEnter \<Rightarrow>
                if length (Title instance) = 0
                then Some (showErrorMessageForShortTime ''title cannot be empty'' m)
                else
                  (case instance_Start a instance of
                     Inl err \<Rightarrow>
                       Some (showErrorMessageForShortTime err
                               (m\<lparr>lst := list_Kill a (lst m), state := stateDefault\<rparr>))
                   | Inr i1 \<Rightarrow>
                       (let m1 = m\<lparr>lst := set_last i1 (lst m)\<rparr> in
                        case save_instances_err a (GetInstances (lst m1)) of
                          Some err \<Rightarrow> Some (showErrorMessageForShortTime err m1)
                        | None \<Rightarrow>
                            (let l2 = newInstanceFinalizer i1 (lst m1);
                                 i2 = (if autoYes m1 then i1\<lparr>AutoYes := True\<rparr> else i1);
                                 l3 = newInstanceFinalizer i2 (set_last i2 l2);
                                 m3 = m1\<lparr>lst := l3, state := stateDefault\<rparr>
                             in if promptAfterName m3
                                then Some (m3\<lparr>state := statePrompt,
                                              menu := Menu_SetState StatePrompt (menu m3),
                                              textInputOverlay :=
                                                Some (NewTextInputOverlay ''Enter prompt'' []),
                                              promptAfterName := False\<rparr>, WindowSize)
                                else Some (m3\<lparr>menu := Menu_SetState StateDefault (menu m3)\<rparr>,
                                           WindowSize))))
            | tea_KeyRunes \<Rightarrow>
                if length (Title instance) \<ge> 32
                then Some (showErrorMessageForShortTime
                             ''title cannot be longer than 32 characters'' m)
                else
                  (case SetTitle others (Title instance @ string_of_runes (msg_Runes msg))
                          instance of
                     Inl err \<Rightarrow> Some (showErrorMessageForShortTime err m)
                   | Inr i1 \<Rightarrow> Some (m\<lparr>lst := set_last i1 (lst m)\<rparr>, CmdNil))
            | tea_KeyBackspace \<Rightarrow>
                if length (Title instance) = 0 then Some (m, CmdNil)
                else
                  (case SetTitle others (take (length (Title instance) - 1) (Title instance))
                          instance of
                     Inl err \<Rightarrow> Some (showErrorMessageForShortTime err m)
                   | Inr i1 \<Rightarrow> Some (m\<lparr>lst := set_last i1 (lst m)\<rparr>, CmdNil))
            | tea_KeySpace \<Rightarrow>
                (case SetTitle others (Title instance @ '' '') instance of
                   Inl err \<Rightarrow> Some (showErrorMessageForShortTime err m)
                 | Inr i1 \<Rightarrow> Some (m\<lparr>lst := set_last i1 (lst m)\<rparr>, CmdNil))
            | tea_KeyEsc \<Rightarrow>
                Some (m\<lparr>lst := list_Kill a (lst m), state := stateDefault\<rparr>,
                      Sequence [WindowSize, MenuSetStateDefault])
            | tea_KeyOther \<Rightarrow> Some (m, CmdNil)))"

text \<open>
  The branch \<open>m.state == statePrompt\<close>. \<open>None\<close> is the panic of a nil overlay.
\<close>

definition handleKeyPress_statePrompt :: "app \<Rightarrow> home \<Rightarrow> KeyMsg \<Rightarrow> (home \<times> Cmd) option" where
  "handleKeyPress_statePrompt a m msg =
     (case textInputOverlay m of
        None \<Rightarrow> None
      | Some ov \<Rightarrow>
          (let (shouldClose, ov1) = overlay_HandleKeyPress a msg ov;
               m1 = m\<lparr>textInputOverlay := Some ov1\<rparr>;
               closing = (\<lambda>m2. (m2\<lparr>textInputOverlay := None, state := stateDefault\<rparr>,
                                Sequence [WindowSize, MenuSetStateDefault]))
           in if shouldClose
              then
                (if overlay_submitted ov1
                 then
                   (case GetSelectedInstance (lst m1) of
                      None \<Rightarrow> Some (m1, CmdNil)
                    | Some selected \<Rightarrow>
                        (case send_prompt a (overlay_value ov1) selected of
                           Inl err \<Rightarrow> Some (showErrorMessageForShortTime err m1)
                         | Inr s1 \<Rightarrow> Some (closing (m1\<lparr>lst := set_selected s1 (lst m1)\<rparr>))))
                 else Some (closing m1))
              else Some (m1, CmdNil)))"

text \<open>
  The cases \<open>keys.KeyPrompt\<close> and \<open>keys.KeyNew\<close> of the default state; they differ in
  \<open>promptAfterName\<close> only.
\<close>

definition handleKeyPress_create :: "app \<Rightarrow> bool \<Rightarrow> home \<Rightarrow> home \<times> Cmd" where
  "handleKeyPress_create a prompt m =
     (if NumInstances (lst m) \<ge> GlobalInstanceLimit
      then showErrorMessageForShortTime over_limit_error m
      else
        (case NewInstance a [] ''.'' (program m) of
           Inl err \<Rightarrow> showErrorMessageForShortTime err m
         | Inr instance \<Rightarrow>
             (let l1 = AddInstance instance (lst m);
                  l2 = SetSelectedInstance (NumInstances l1 - 1) l1;
                  m1 = m\<lparr>lst := l2, state := stateNew,
                         menu := Menu_SetState StateNewInstance (menu m)\<rparr>
              in if prompt then (m1\<lparr>promptAfterName := True\<rparr>, CmdNil) else (m1, CmdNil))))"

text \<open>
  The default state. The cases of the other key names call packages that are not among the
  sources (the list's navigation and kill, the tabbed window, the storage, the worktree's
  push, pause, resume and attach); they are the parameter \<open>other_key\<close>.
\<close>

definition handleKeyPress_default :: "app \<Rightarrow> home \<Rightarrow> KeyMsg \<Rightarrow> home \<times> Cmd" where
  "handleKeyPress_default a m msg =
     (if msg_String msg = ''ctrl+c'' \<or> msg_String msg = ''q'' then handleQuit a m
      else
        (case GlobalKeyStringsMap a (msg_String msg) of
           None \<Rightarrow> (m, CmdNil)
         | Some name \<Rightarrow>
             (case name of
                KeyPrompt \<Rightarrow> handleKeyPress_create a True m
              | KeyNew \<Rightarrow> handleKeyPress_create a False m
              | KeyQuit \<Rightarrow> (m, CmdNil)
              | KeySubmitName \<Rightarrow> (m, CmdNil)
              | KeyCheckout \<Rightarrow> (m, CmdNil)
              | other \<Rightarrow> other_key a other m)))"

definition handleKeyPress :: "app \<Rightarrow> home \<Rightarrow> KeyMsg \<Rightarrow> (home \<times> Cmd) option" where
  "handleKeyPress a m msg =
     (if \<not> keySent m \<and> state m \<noteq> statePrompt
      then
        (let m1 = m\<lparr>keySent := True\<rparr> in
         case GlobalKeyStringsMap a (msg_String msg) of
           None \<Rightarrow> Some (m1, Resend msg)
         | Some name0 \<Rightarrow>
             (let name = (if name0 = KeyEnter \<and> state m1 = stateNew then KeySubmitName else name0)
              in Some (m1\<lparr>menu := Menu_Keydown name (menu m1)\<rparr>,
                       Batch [Resend msg, KeyupAfter500ms])))
      else
        (let m1 = m\<lparr>keySent := False\<rparr> in
         if state m1 = stateNew then handleKeyPress_stateNew a m1 msg
         else if state m1 = statePrompt then handleKeyPress_statePrompt a m1 msg
         else Some (handleKeyPress_default a m1 msg)))"

section \<open>Observations and example states\<close>

text \<open>The bytes that have reached the session's pty.\<close>

definition pty_bytes :: "TmuxSession \<Rightarrow> string" where
  "pty_bytes t = (case ptmx t of None \<Rightarrow> [] | Some p \<Rightarrow> written p)"

text \<open>
  A read of stdin that the loop of \<open>Attach\<close> meets while \<open>timeoutCh\<close> is still open (and
  that does not end the loop), and the log lines that a list of reads leaves behind when all
  of them are dropped.
\<close>

fun in_window :: "read_result \<times> bool \<Rightarrow> bool" where
  "in_window (ReadEOF, expired) = False"
| "in_window (r, expired) = (\<not> expired)"

fun nuked :: "(read_result \<times> bool) list \<Rightarrow> (level \<times> string) list" where
  "nuked [] = []"
| "nuked ((ReadBytes bs, expired) # rs) = (ErrorLog, ''nuked first stdin: '' @ bs) # nuked rs"
| "nuked (r # rs) = nuked rs"

text \<open>
  Example states: a pane that shows a confirmation prompt, a terminal that can be put into
  raw mode, a restored session named \<open>alpha\<close>, the same session after its monitor has seen
  the pane, after \<open>Attach\<close>, and a started instance on it whose status is \<open>Running\<close>.
\<close>

definition demo_content :: string where
  "demo_content = ''Do you want to proceed?''"

definition demo_env :: env where
  "demo_env = \<lparr>capture_pane = (\<lambda>name. Inr demo_content), make_raw = Inr 7,
               pty_start = None, term_restore = None\<rparr>"

definition demo_world :: world where
  "demo_world = \<lparr>logged = [], term_raw = False, chans = [], spawned = []\<rparr>"

definition demo_session :: TmuxSession where
  "demo_session = snd (Restore demo_env (NewTmuxSession ''alpha''))"

definition demo_seen :: TmuxSession where
  "demo_seen = demo_session\<lparr>monitor := Some \<lparr>prevOutputHash = hash demo_content\<rparr>\<rparr>"

definition demo_attached :: TmuxSession where
  "demo_attached = fst (snd (Attach demo_env demo_session demo_world))"

definition demo_attached_world :: world where
  "demo_attached_world = snd (snd (Attach demo_env demo_session demo_world))"

definition demo_instance :: Instance where
  "demo_instance =
     \<lparr>Title = ''alpha'', Path = ''.'', Program = ''claude'', Status = Running, started = True,
      AutoYes = False, diffStats = None, tmuxSession = demo_seen\<rparr>"

definition demo_diff :: "string \<Rightarrow> string + DiffStats" where
  "demo_diff title = Inr \<lparr>Added = 1, Removed = 0, Content = ''+x''\<rparr>"

text \<open>
  An application whose keys \<open>n\<close> and \<open>N\<close> create an instance, and a UI with the
  instances \<open>ys\<close> in the state \<open>st\<close>, on the second delivery of a key.
\<close>

definition demo_app :: app where
  "demo_app =
     \<lparr>GlobalKeyStringsMap =
        (\<lambda>s. if s = ''n'' then Some KeyNew else if s = ''N'' then Some KeyPrompt
              else if s = ''enter'' then Some KeyEnter else None),
      worktree_diff = demo_diff,
      new_instance_err = None,
      instance_Start = (\<lambda>i. Inr (i\<lparr>started := True\<rparr>)),
      save_instances_err = (\<lambda>ys. None),
      list_Kill = (\<lambda>l. l\<lparr>items := butlast (items l)\<rparr>),
      overlay_HandleKeyPress = (\<lambda>msg ov. (False, ov)),
      send_prompt = (\<lambda>text i. Inr i),
      other_key = (\<lambda>name m. (m, CmdNil))\<rparr>"

definition demo_home :: "state \<Rightarrow> Instance list \<Rightarrow> home" where
  "demo_home st ys =
     \<lparr>program = ''claude'', autoYes = False,
      lst = \<lparr>items = ys, selectedIdx = 0, registered = []\<rparr>,
      menu = \<lparr>menu_state = StateDefault, keyDown = None\<rparr>,
      errBox = None, state = st, promptAfterName = False, textInputOverlay = None,
      keySent = True\<rparr>"


definition demo_key :: "KeyType \<Rightarrow> string \<Rightarrow> KeyMsg" where
  "demo_key ty s = \<lparr>msg_Type = ty, msg_Runes = map of_char s, msg_String = s\<rparr>"

section \<open>The standard-library models are the functions they stand for\<close>

lemma HasPrefix_prefix: "HasPrefix s p = prefix p s"
  by (induction s p rule: HasPrefix.induct) auto

lemma Contains_sublist: "Contains s sub = sublist sub s"
  by (induction s) (auto simp: HasPrefix_prefix sublist_Cons_right)

lemma filter_dropWhile_not: "filter (\<lambda>c. \<not> P c) (dropWhile P xs) = filter (\<lambda>c. \<not> P c) xs"
  by (induction xs) auto

lemma ReplaceAllString_ws_filter: "ReplaceAllString_ws s = filter (\<lambda>c. \<not> is_space c) s"
  by (induction s rule: ReplaceAllString_ws.induct) (auto simp: filter_dropWhile_not)





lemma itoa_10: "itoa 10 = ''10''"
  by (simp add: itoa.simps[of 10] itoa.simps[of 1])

lemma length_round256: "length s = 8 \<Longrightarrow> length (round256 s kw) = 8"
  by (cases kw) (auto simp: length_Suc_conv eval_nat_numeral Let_def)

lemma length_foldl_round256: "length s = 8 \<Longrightarrow> length (foldl round256 s kws) = 8"
  by (induction kws arbitrary: s) (auto simp: length_round256)

lemma length_compress: "length hs = 8 \<Longrightarrow> length (compress hs blk) = 8"
  by (simp add: compress_def length_foldl_round256)

lemma length_foldl_compress: "length hs = 8 \<Longrightarrow> length (foldl compress hs bl) = 8"
  by (induction bl arbitrary: hs) (auto simp: length_compress)

lemma length_concat_word_bytes: "length (concat (map word_bytes ws)) = 4 * length ws"
  by (induction ws) (auto simp: word_bytes_def)

lemma length_sha256: "length (sha256 m) = 32"
  by (simp add: sha256_def Let_def length_concat_word_bytes length_foldl_compress H256_def)

lemma length_hash: "length (hash s) = 32"
  by (simp add: hash_def length_sha256)

lemma hash_not_nil: "hash s \<noteq> []"
  using length_hash[of s] by auto

text \<open>
  The digest of the example message \<open>abc\<close> of FIPS 180-4, and that of the example pane
  (as \<open>sha256sum\<close> prints it).
\<close>

lemma hash_abc:
  "hash ''abc'' =
     [0xba, 0x78, 0x16, 0xbf, 0x8f, 0x01, 0xcf, 0xea, 0x41, 0x41, 0x40, 0xde, 0x5d, 0xae, 0x22, 0x23,
      0xb0, 0x03, 0x61, 0xa3, 0x96, 0x17, 0x7a, 0x9c, 0xb4, 0x10, 0xff, 0x61, 0xf2, 0x00, 0x15, 0xad]"
  by code_simp

lemma hash_demo_content:
  "hash demo_content =
     [0x59, 0x52, 0x3b, 0x08, 0x59, 0x14, 0xc2, 0xa1, 0x83, 0x50, 0x2d, 0x5c, 0x42, 0xe5, 0xce, 0x47,
      0xe0, 0x6d, 0x63, 0x8e, 0x71, 0xff, 0x2a, 0xd9, 0x1b, 0x0c, 0x11, 0x77, 0x8d, 0x04, 0x98, 0xc1]"
  by code_simp

lemma hash_abc_demo_content: "hash ''abc'' \<noteq> hash demo_content"
  by (simp add: hash_abc hash_demo_content)

section \<open>The status monitor\<close>

lemma HasUpdated_frame:
  "HasUpdated e t w = Some (r, t1, w1) \<Longrightarrow>
     ptmx t1 = ptmx t \<and> sanitizedName t1 = sanitizedName t \<and> Name t1 = Name t
     \<and> attachCh t1 = attachCh t \<and> term_raw w1 = term_raw w \<and> chans w1 = chans w
     \<and> spawned w1 = spawned w"
  by (auto simp: HasUpdated_def Let_def split: sum.splits option.splits if_splits)

lemma HasUpdated_unchanged:
  assumes "capture_pane e (sanitizedName t) = Inr c" and "monitor t = Some m"
      and "prevOutputHash m = hash c"
  shows "HasUpdated e t w = Some ((False, Contains c ''Do you want''), t, w)"
  using assms by (simp add: HasUpdated_def CapturePaneContent_def Let_def)

lemma HasUpdated_capture_failed:
  assumes "capture_pane e (sanitizedName t) = Inl err"
  shows "HasUpdated e t w =
           Some ((False, False), t,
                 w\<lparr>logged := logged w @
                     [(ErrorLog, ''error capturing pane content in status monitor: '' @
                         ''error capturing pane content: '' @ err)]\<rparr>)"
  using assms by (simp add: HasUpdated_def CapturePaneContent_def)

text \<open>
  After a call that captured the content \<open>c\<close>, the monitor holds the digest of \<open>c\<close>: the
  stored digest is that of the content at the previous call.
\<close>

lemma HasUpdated_stores_digest:
  assumes "capture_pane e (sanitizedName t) = Inr c" and "HasUpdated e t w = Some (r, t1, w1)"
  shows "map_option prevOutputHash (monitor t1) = Some (hash c)"
  using assms
  by (auto simp: HasUpdated_def CapturePaneContent_def Let_def split: option.splits if_splits)

text \<open>
  A digest has 32 bytes and there is no bound on the contents of a pane, so two contents
  that differ have the same digest.
\<close>

lemma hash_collision: "\<exists>c0 c. c0 \<noteq> c \<and> hash c0 = hash c"
proof -
  have "range hash \<subseteq> {xs. set xs \<subseteq> UNIV \<and> length xs = 32}"
    by (auto simp: length_hash)
  moreover have "finite {xs :: byte list. set xs \<subseteq> UNIV \<and> length xs = 32}"
    by (rule finite_lists_length_eq) simp
  ultimately have "finite (range hash)"
    by (rule finite_subset)
  moreover have "infinite (UNIV :: string set)"
    by (rule infinite_UNIV_listI)
  ultimately have "\<not> inj hash"
    using finite_imageD by blast
  then show ?thesis
    by (auto simp: inj_def)
qed

text \<open>
  C4, as stated, fails: \<open>HasUpdated\<close> compares digests, not contents. There are two
  contents that differ and have the same digest; when the pane of a restored session shows
  the one at a call and the other at the next call, that next call reports
  \<open>updated = False\<close>.
\<close>

theorem HasUpdated_misses_colliding_change:
  "\<exists>c0 c t0. c0 \<noteq> c
     \<and> HasUpdated (demo_env\<lparr>capture_pane := (\<lambda>name. Inr c0)\<rparr>) demo_session demo_world =
         Some ((True, Contains c0 ''Do you want''), t0, demo_world)
     \<and> HasUpdated (demo_env\<lparr>capture_pane := (\<lambda>name. Inr c)\<rparr>) t0 demo_world =
         Some ((False, Contains c ''Do you want''), t0, demo_world)"
proof -
  from hash_collision obtain c0 c where d: "c0 \<noteq> c" and h: "hash c0 = hash c"
    by blast
  have "HasUpdated (demo_env\<lparr>capture_pane := (\<lambda>name. Inr c0)\<rparr>) demo_session demo_world =
          Some ((True, Contains c0 ''Do you want''),
                demo_session\<lparr>monitor := Some \<lparr>prevOutputHash = hash c0\<rparr>\<rparr>, demo_world)"
    using hash_not_nil[of c0]
    by (auto simp: HasUpdated_def CapturePaneContent_def Let_def demo_session_def Restore_def
          demo_env_def newStatusMonitor_def)
  moreover
  have "HasUpdated (demo_env\<lparr>capture_pane := (\<lambda>name. Inr c)\<rparr>)
          (demo_session\<lparr>monitor := Some \<lparr>prevOutputHash = hash c0\<rparr>\<rparr>) demo_world =
          Some ((False, Contains c ''Do you want''),
                demo_session\<lparr>monitor := Some \<lparr>prevOutputHash = hash c0\<rparr>\<rparr>, demo_world)"
    using h by (simp add: HasUpdated_def CapturePaneContent_def Let_def)
  ultimately show ?thesis
    using d by blast
qed

text \<open>
  C4, amended. Two successive calls of \<open>HasUpdated\<close> on a restored session, the pane
  showing \<open>c0\<close> at the first and \<open>c\<close> at the second: the second call reports \<open>updated\<close>
  exactly when the SHA-256 digests of \<open>c0\<close> and \<open>c\<close> differ, and it leaves the digest of
  \<open>c\<close>, which has 32 bytes, in the monitor; a third call, the pane still showing \<open>c\<close>,
  reports \<open>updated = False\<close> and changes nothing. So a call that reports \<open>updated\<close> has
  seen a content that differs from the previous one, and a content that has not changed is
  never reported; a content that has changed is reported unless the two digests are equal.
  The first call reports \<open>updated\<close> exactly when the digest of \<open>c0\<close> is not the stored
  one, and always when the session has just been restored, since the monitor then holds no
  digest. Whatever the digests, each call reports \<open>hasPrompt\<close> exactly when the content it
  captured contains \<open>Do you want\<close>. In the example the pane of a session that has just
  been restored shows \<open>abc\<close> and then the prompt.
\<close>

theorem HasUpdated_monotone:
  assumes "capture_pane e0 (sanitizedName t) = Inr c0"
      and "capture_pane e (sanitizedName t) = Inr c"
      and "monitor t = Some m"
  shows "\<exists>t0 t1.
           HasUpdated e0 t w =
             Some ((prevOutputHash m \<noteq> hash c0, Contains c0 ''Do you want''), t0, w)
         \<and> t0 = t\<lparr>monitor := Some (m\<lparr>prevOutputHash := hash c0\<rparr>)\<rparr>
         \<and> HasUpdated e t0 w = Some ((hash c0 \<noteq> hash c, Contains c ''Do you want''), t1, w)
         \<and> t1 = t\<lparr>monitor := Some (m\<lparr>prevOutputHash := hash c\<rparr>)\<rparr>
         \<and> HasUpdated e t1 w = Some ((False, Contains c ''Do you want''), t1, w)
         \<and> length (hash c) = 32
         \<and> (m = newStatusMonitor \<longrightarrow> prevOutputHash m \<noteq> hash c0)"
proof -
  let ?t0 = "t\<lparr>monitor := Some (m\<lparr>prevOutputHash := hash c0\<rparr>)\<rparr>"
  let ?t1 = "t\<lparr>monitor := Some (m\<lparr>prevOutputHash := hash c\<rparr>)\<rparr>"
  have first: "HasUpdated e0 t w =
                 Some ((prevOutputHash m \<noteq> hash c0, Contains c0 ''Do you want''), ?t0, w)"
    using assms(1,3) by (auto simp: HasUpdated_def CapturePaneContent_def Let_def)
  have second: "HasUpdated e ?t0 w =
                  Some ((hash c0 \<noteq> hash c, Contains c ''Do you want''), ?t1, w)"
    using assms(2) by (auto simp: HasUpdated_def CapturePaneContent_def Let_def)
  have third: "HasUpdated e ?t1 w = Some ((False, Contains c ''Do you want''), ?t1, w)"
    using assms(2) by (simp add: HasUpdated_def CapturePaneContent_def Let_def)
  have fresh: "m = newStatusMonitor \<longrightarrow> prevOutputHash m \<noteq> hash c0"
    using hash_not_nil[of c0] by (auto simp: newStatusMonitor_def)
  from first second third fresh show ?thesis
    by (simp add: length_hash)
qed

theorem HasUpdated_monotone_witness:
  "\<exists>t0 t1.
      HasUpdated (demo_env\<lparr>capture_pane := (\<lambda>name. Inr ''abc'')\<rparr>) demo_session demo_world =
        Some ((True, False), t0, demo_world)
    \<and> map_option prevOutputHash (monitor t0) = Some (hash ''abc'')
    \<and> HasUpdated demo_env t0 demo_world = Some ((True, True), t1, demo_world)
    \<and> map_option prevOutputHash (monitor t1) =
        Some [0x59, 0x52, 0x3b, 0x08, 0x59, 0x14, 0xc2, 0xa1, 0x83, 0x50, 0x2d, 0x5c, 0x42, 0xe5,
              0xce, 0x47, 0xe0, 0x6d, 0x63, 0x8e, 0x71, 0xff, 0x2a, 0xd9, 0x1b, 0x0c, 0x11, 0x77,
              0x8d, 0x04, 0x98, 0xc1]
    \<and> HasUpdated demo_env t1 demo_world = Some ((False, True), t1, demo_world)"
proof -
  have prompt: "Contains demo_content ''Do you want''" "\<not> Contains ''abc'' ''Do you want''"
    by (simp_all add: demo_content_def)
  have restored: "monitor demo_session = Some newStatusMonitor"
    by (simp add: demo_session_def Restore_def demo_env_def)
  have abc: "capture_pane (demo_env\<lparr>capture_pane := (\<lambda>name. Inr ''abc'')\<rparr>)
               (sanitizedName demo_session) = Inr ''abc''"
    and pane: "capture_pane demo_env (sanitizedName demo_session) = Inr demo_content"
    by (simp_all add: demo_env_def)
  from HasUpdated_monotone[OF abc pane restored, of demo_world]
  show ?thesis
    using prompt hash_abc_demo_content
    by (auto simp: hash_demo_content)
qed

section \<open>Session names\<close>

lemma toClaudeSquadTmuxName_eq_iff:
  "(toClaudeSquadTmuxName a = toClaudeSquadTmuxName b) =
     (filter (\<lambda>c. \<not> is_space c) a = filter (\<lambda>c. \<not> is_space c) b)"
  by (simp add: toClaudeSquadTmuxName_def ReplaceAllString_ws_filter)

text \<open>
  C5, as stated, fails: the titles \<open>a b\<close> and \<open>ab\<close> are distinct and have the same
  sanitized name.
\<close>

theorem sanitized_name_collision:
  "Name (NewTmuxSession ''a b'') \<noteq> Name (NewTmuxSession ''ab'')
   \<and> sanitizedName (NewTmuxSession ''a b'') = sanitizedName (NewTmuxSession ''ab'')"
  by (simp add: NewTmuxSession_def toClaudeSquadTmuxName_def is_space_def)

lemma tmux_kill_session_distinct:
  "tmux_kill_session target srv = Inr srv1 \<Longrightarrow> distinct srv \<Longrightarrow> distinct srv1"
  by (auto simp: tmux_kill_session_def split: if_splits list.splits)

lemma Close_server:
  "snd (snd (Close t srv)) =
     (case tmux_kill_session (sanitizedName t) srv of Inl err \<Rightarrow> srv | Inr srv2 \<Rightarrow> srv2)"
  by (simp add: Close_def Let_def split: option.split sum.split list.split prod.split)

lemma Close_distinct: "distinct srv \<Longrightarrow> distinct (snd (snd (Close t srv)))"
  by (simp add: Close_server tmux_kill_session_distinct split: sum.split)

text \<open>The sessions of the server after \<open>Start\<close>.\<close>

lemma Start_server:
  "fst (snd (snd (Start e se prog workDir t srv w))) =
     (if DoesSessionExist (sanitizedName t) srv then srv
      else
        (let srv1 = (if new_session_created se then srv @ [sanitizedName t] else srv) in
         case new_session_err se of
           Some err \<Rightarrow>
             (if DoesSessionExist (sanitizedName t) srv1
              then (case tmux_kill_session (sanitizedName t) srv1 of
                      Inl cleanupErr \<Rightarrow> srv1 | Inr srv2 \<Rightarrow> srv2)
              else srv1)
         | None \<Rightarrow>
             (if \<not> DoesSessionExist (sanitizedName t) srv1 then snd (snd (Close t srv1))
              else (case Restore e t of
                      (Some err, t1) \<Rightarrow> snd (snd (Close t1 srv1))
                    | (None, t1) \<Rightarrow> srv1))))"
  by (simp add: Start_def Let_def split: option.split sum.split prod.split)

lemma Start_distinct:
  assumes "distinct srv"
  shows "distinct (fst (snd (snd (Start e se prog workDir t srv w))))"
  using assms
  by (simp add: Start_server Let_def DoesSessionExist_def Close_distinct
        tmux_kill_session_distinct split: option.split sum.split prod.split)

lemma Start_existing_session:
  "DoesSessionExist (sanitizedName t) srv \<Longrightarrow>
     Start e se prog workDir t srv w =
       (Some (''tmux session already exists: '' @ sanitizedName t), t, srv, w)"
  by (simp add: Start_def)

text \<open>
  C5, amended. Two titles get the same sanitized name exactly when they are equal once
  their whitespace is removed; so sessions with distinct sanitized names have distinct
  titles, and titles that differ in more than whitespace have distinct sanitized names.
  A session whose sanitized name the multiplexer already has is not started: \<open>Start\<close>
  returns an error and changes nothing. So \<open>Start\<close>, whatever its outcome, leaves the
  names of the live sessions pairwise distinct when they were.
\<close>

theorem sanitized_name_distinct:
  "(sanitizedName (NewTmuxSession a) = sanitizedName (NewTmuxSession b)) =
     (filter (\<lambda>c. \<not> is_space c) (Name (NewTmuxSession a)) =
      filter (\<lambda>c. \<not> is_space c) (Name (NewTmuxSession b)))
   \<and> Name (NewTmuxSession a) = a
   \<and> (DoesSessionExist (sanitizedName t) srv \<longrightarrow>
        Start e se prog workDir t srv w =
          (Some (''tmux session already exists: '' @ sanitizedName t), t, srv, w))
   \<and> (distinct srv \<longrightarrow> distinct (fst (snd (snd (Start e se prog workDir t srv w)))))"
proof (intro conjI impI)
  show "(sanitizedName (NewTmuxSession a) = sanitizedName (NewTmuxSession b)) =
     (filter (\<lambda>c. \<not> is_space c) (Name (NewTmuxSession a)) =
      filter (\<lambda>c. \<not> is_space c) (Name (NewTmuxSession b)))"
    by (simp add: NewTmuxSession_def toClaudeSquadTmuxName_eq_iff)
  show "Name (NewTmuxSession a) = a"
    by (simp add: NewTmuxSession_def)
next
  assume "DoesSessionExist (sanitizedName t) srv"
  then show "Start e se prog workDir t srv w =
          (Some (''tmux session already exists: '' @ sanitizedName t), t, srv, w)"
    by (rule Start_existing_session)
next
  assume "distinct srv"
  then show "distinct (fst (snd (snd (Start e se prog workDir t srv w))))"
    by (rule Start_distinct)
qed

theorem sanitized_name_distinct_witness:
  "sanitizedName (NewTmuxSession ''alpha'') \<noteq> sanitizedName (NewTmuxSession ''beta'')
   \<and> DoesSessionExist (sanitizedName (NewTmuxSession ''a b'')) [sanitizedName (NewTmuxSession ''ab'')]
   \<and> Start demo_env \<lparr>new_session_err = None, new_session_created = True,
                       sweep_capture = (\<lambda>k. Inr demo_content)\<rparr>
        ''claude'' ''.'' (NewTmuxSession ''a b'') [sanitizedName (NewTmuxSession ''ab'')] demo_world =
       (Some ''tmux session already exists: claudesquad-ab'', NewTmuxSession ''a b'',
        [sanitizedName (NewTmuxSession ''ab'')], demo_world)
   \<and> distinct (fst (snd (snd (Start demo_env
        \<lparr>new_session_err = None, new_session_created = True,
          sweep_capture = (\<lambda>k. Inr demo_content)\<rparr>
        ''claude'' ''.'' (NewTmuxSession ''a b'') [sanitizedName (NewTmuxSession ''ab'')]
        demo_world))))"
  using sanitized_name_distinct[of "''alpha''" "''beta''"]
    sanitized_name_distinct[of "''a b''" "''ab''" "NewTmuxSession ''a b''"
      "[sanitizedName (NewTmuxSession ''ab'')]" demo_env
      "\<lparr>new_session_err = None, new_session_created = True,
        sweep_capture = (\<lambda>k. Inr demo_content)\<rparr>" "''claude''" "''.''" demo_world]
  by (simp add: NewTmuxSession_def toClaudeSquadTmuxName_def TmuxPrefix_def is_space_def
        DoesSessionExist_def)

section \<open>Cleaning up sessions\<close>

lemma CleanupSessions_no_sessions: "CleanupSessions (Inl (ExitError 1)) srv = (None, srv)"
  by (simp add: CleanupSessions_def)

lemma CleanupSessions_empty_server: "CleanupSessions (tmux_ls []) [] = (None, [])"
  by (simp add: CleanupSessions_def tmux_ls_def)

lemma CleanupSessions_kills_first_numbered_only:
  "CleanupSessions (tmux_ls [''claudesquad-1'', ''claudesquad-2''])
     [''claudesquad-1'', ''claudesquad-2''] = (None, [''claudesquad-2''])"
  by (simp add: CleanupSessions_def tmux_ls_def ls_line_def FindAllString_sessions_def
        TmuxPrefix_def is_digit_def tmux_kill_session_def)

text \<open>
  C9. With one session named \<open>claudesquad-alpha\<close>, \<open>tmux ls\<close> succeeds, the pattern
  \<open>^claudesquad-\d+\<close> matches nothing, and \<open>CleanupSessions\<close> returns no error although
  the session, whose name begins with the prefix, is still there.
\<close>

theorem CleanupSessions_leaves_session:
  "CleanupSessions (tmux_ls [''claudesquad-alpha'']) [''claudesquad-alpha''] =
     (None, [''claudesquad-alpha''])
   \<and> HasPrefix ''claudesquad-alpha'' TmuxPrefix"
  by (simp add: CleanupSessions_def tmux_ls_def ls_line_def FindAllString_sessions_def
        TmuxPrefix_def is_digit_def)

section \<open>Attach and the loop on stdin\<close>

text \<open>
  C10. When \<open>term.MakeRaw\<close> fails, \<open>Attach\<close> returns the error, and the session and the
  world are what they were: no field is set and no goroutine is started. The same call with
  a terminal that can be put into raw mode succeeds: it returns the new channel, sets the
  five fields and starts the two readers and the window-size monitor.
\<close>

theorem Attach_MakeRaw_fails:
  assumes "make_raw e = Inl err" and "make_raw e2 = Inr st"
  shows "Attach e t w = (Inl (''error making terminal raw: '' @ err), t, w)
       \<and> (\<exists>t2 w2. Attach e2 (fst (snd (Attach e t w))) (snd (snd (Attach e t w))) =
                     (Inr (length (chans w)), t2, w2)
             \<and> t2 = t\<lparr>oldState := Some st, attachCh := Some (length (chans w)), wg := Some 1,
                       ctx := Some (), cancel := Some ()\<rparr>
             \<and> chans w2 = chans w @ [False]
             \<and> spawned w2 = spawned w @ [CopyPtyToStdout, StdinLoop, WindowSizeMonitor]
             \<and> term_raw w2)"
  using assms
  by (auto simp: Attach_def Let_def monitorWindowSize_def)

theorem Attach_MakeRaw_fails_witness:
  "Attach (demo_env\<lparr>make_raw := Inl ''inappropriate ioctl for device''\<rparr>) demo_session demo_world =
     (Inl ''error making terminal raw: inappropriate ioctl for device'', demo_session, demo_world)
   \<and> attachCh demo_session = None \<and> oldState demo_session = None \<and> ctx demo_session = None
   \<and> cancel demo_session = None \<and> wg demo_session = None \<and> spawned demo_world = []
   \<and> fst (Attach demo_env demo_session demo_world) = Inr 0"
  using Attach_MakeRaw_fails[of "demo_env\<lparr>make_raw := Inl ''inappropriate ioctl for device''\<rparr>"
      "''inappropriate ioctl for device''" demo_env 7 demo_session demo_world]
  by (auto simp: demo_env_def demo_session_def demo_world_def Restore_def NewTmuxSession_def)

lemma stdinLoop_window:
  "list_all in_window rs \<Longrightarrow>
     stdinLoop e (rs @ rest) t w = stdinLoop e rest t (w\<lparr>logged := logged w @ nuked rs\<rparr>)"
proof (induction rs arbitrary: w)
  case Nil
  then show ?case by simp
next
  case (Cons r rs)
  obtain x expired where r: "r = (x, expired)" by (cases r)
  show ?case
  proof (cases x)
    case (ReadError err)
    with Cons r show ?thesis by simp
  next
    case ReadEOF
    with Cons r show ?thesis by simp
  next
    case (ReadBytes bs)
    with Cons r show ?thesis by simp
  qed
qed

lemma stdinLoop_forwards:
  "bs \<noteq> [CHR 0x11] \<Longrightarrow>
     stdinLoop e ((ReadBytes bs, True) # rest) t w =
       stdinLoop e rest (t\<lparr>ptmx := snd (File_Write bs (ptmx t))\<rparr>) w"
  by (cases bs) auto

lemma Detach_pty_bytes:
  "Detach e t w = Some (err, t1, w1) \<Longrightarrow> pty_bytes t1 = pty_bytes t \<or> pty_bytes t1 = []"
  by (auto simp: Detach_def Detach_body_def File_Close_def Restore_def pty_bytes_def
           split: option.splits if_splits prod.splits)

lemma Detach_fields:
  "Detach e t w = Some (err, t1, w1) \<Longrightarrow>
     attachCh t1 = None \<and> oldState t1 = None \<and> ctx t1 = None \<and> cancel t1 = None \<and> wg t1 = None
     \<and> (\<exists>ch. attachCh t = Some ch \<and> ch < length (chans w) \<and> \<not> chans w ! ch
              \<and> chans w1 = (chans w)[ch := True])"
  by (auto simp: Detach_def Detach_body_def File_Close_def Restore_def
           split: option.splits if_splits prod.splits)

lemma Detach_demo_attached:
  "Detach demo_env demo_attached demo_attached_world =
     Some (None,
           demo_attached\<lparr>ptmx := Some \<lparr>written = [], closed = False\<rparr>,
                          monitor := Some newStatusMonitor, attachCh := None, oldState := None,
                          cancel := None, ctx := None, wg := None\<rparr>,
           demo_attached_world\<lparr>term_raw := False, chans := [True]\<rparr>)"
  by (simp add: Detach_def Detach_body_def File_Close_def Restore_def demo_attached_def
        demo_attached_world_def Attach_def monitorWindowSize_def Let_def demo_env_def
        demo_session_def demo_world_def NewTmuxSession_def)

text \<open>
  C8, as stated, fails: a read of the single byte \<open>0x11\<close> that arrives while \<open>timeoutCh\<close>
  is still open is dropped like every other read of the first 50 ms. The loop goes on
  reading and the session stays attached, although \<open>Detach\<close> would have succeeded.
\<close>

theorem ctrl_q_in_window_is_dropped:
  "stdinLoop demo_env [(ReadBytes [CHR 0x11], False)] demo_attached demo_attached_world =
     (Reading, demo_attached,
      demo_attached_world\<lparr>logged := [(ErrorLog, ''nuked first stdin: '' @ [CHR 0x11])]\<rparr>)
   \<and> attachCh demo_attached = Some 0
   \<and> (\<exists>r. Detach demo_env demo_attached demo_attached_world = Some r)"
  by (simp add: Detach_demo_attached)
     (simp add: demo_attached_def demo_attached_world_def Attach_def monitorWindowSize_def Let_def
        demo_env_def demo_world_def)

text \<open>
  C8, amended. The reads that happen while \<open>timeoutCh\<close> is open are dropped, whatever
  their bytes, the byte \<open>0x11\<close> included: the loop goes on with the session untouched and
  one log line per read. Once \<open>timeoutCh\<close> is closed, a read of the single byte \<open>0x11\<close>
  makes the loop call \<open>Detach\<close> and return; the byte does not reach the pty, and the reads
  after it are not consumed.
\<close>

theorem stdinLoop_discards_then_detaches:
  "(list_all in_window rs \<longrightarrow>
       stdinLoop e (rs @ rest) t w = stdinLoop e rest t (w\<lparr>logged := logged w @ nuked rs\<rparr>))
   \<and> (Detach e t w = Some (err, t1, w1) \<longrightarrow>
        (\<exists>w2. stdinLoop e ((ReadBytes [CHR 0x11], True) # rest) t w = (Detached, t1, w2)
              \<and> chans w2 = chans w1 \<and> term_raw w2 = term_raw w1)
        \<and> (pty_bytes t1 = pty_bytes t \<or> pty_bytes t1 = [])
        \<and> attachCh t1 = None)"
proof (intro conjI impI)
  assume "list_all in_window rs"
  then show "stdinLoop e (rs @ rest) t w = stdinLoop e rest t (w\<lparr>logged := logged w @ nuked rs\<rparr>)"
    by (rule stdinLoop_window)
next
  assume d: "Detach e t w = Some (err, t1, w1)"
  then show "\<exists>w2. stdinLoop e ((ReadBytes [CHR 0x11], True) # rest) t w = (Detached, t1, w2)
              \<and> chans w2 = chans w1 \<and> term_raw w2 = term_raw w1"
    by (cases err) auto
  from d show "pty_bytes t1 = pty_bytes t \<or> pty_bytes t1 = []" by (rule Detach_pty_bytes)
  from d show "attachCh t1 = None" using Detach_fields by blast
qed

theorem stdinLoop_discards_then_detaches_witness:
  "fst (stdinLoop demo_env
          ([(ReadBytes ''[?62;c'', False), (ReadBytes [CHR 0x11], False)] @
           [(ReadBytes [CHR 0x11], True), (ReadBytes ''ls'', True)])
          demo_attached demo_attached_world) = Detached
   \<and> pty_bytes (fst (snd (stdinLoop demo_env
          ([(ReadBytes ''[?62;c'', False), (ReadBytes [CHR 0x11], False)] @
           [(ReadBytes [CHR 0x11], True), (ReadBytes ''ls'', True)])
          demo_attached demo_attached_world))) = []"
  using stdinLoop_discards_then_detaches[of
      "[(ReadBytes ''[?62;c'', False), (ReadBytes [CHR 0x11], False)]" demo_env
      "[(ReadBytes [CHR 0x11], True), (ReadBytes ''ls'', True)]" demo_attached
      demo_attached_world]
    stdinLoop_discards_then_detaches[of "[]" demo_env "[(ReadBytes ''ls'', True)]" demo_attached
      "demo_attached_world\<lparr>logged := logged demo_attached_world @
          nuked [(ReadBytes ''[?62;c'', False), (ReadBytes [CHR 0x11], False)]\<rparr>"]
  by (simp add: Detach_demo_attached)
     (simp add: Detach_def Detach_body_def File_Close_def Restore_def demo_attached_def
        demo_attached_world_def Attach_def monitorWindowSize_def Let_def demo_env_def
        demo_session_def demo_world_def NewTmuxSession_def pty_bytes_def)

section \<open>The metadata tick\<close>













text \<open>
  C1, as stated, fails. The instance \<open>demo_instance\<close> is started, not paused and has
  \<open>AutoYes = False\<close>; its pane shows a prompt and has not changed since the previous tick.
  The tick does not make its status \<open>Ready\<close>: it was \<open>Running\<close> and it stays \<open>Running\<close>.
\<close>

theorem prompt_tick_keeps_Running:
  "Instance_Started demo_instance \<and> \<not> Instance_Paused demo_instance \<and> \<not> AutoYes demo_instance
   \<and> HasUpdated demo_env (tmuxSession demo_instance) demo_world =
        Some ((False, True), tmuxSession demo_instance, demo_world)
   \<and> (\<exists>i1 w1. tickInstance demo_env demo_diff demo_instance demo_world = Some (i1, w1)
          \<and> Status i1 = Running \<and> Status i1 \<noteq> Ready)"
  by (simp add: tickInstance_def Instance_HasUpdated_def HasUpdated_def CapturePaneContent_def
        Instance_TapEnter_def UpdateDiffStats_def Instance_Started_def Instance_Paused_def
        demo_instance_def demo_seen_def demo_env_def demo_diff_def demo_content_def Let_def)

text \<open>
  C1, amended. For a started, non-paused instance with \<open>AutoYes = False\<close>, a tick on
  which the captured content has the stored digest (it has not updated) and contains the
  prompt returns, writes nothing to the pty (the session is what it was) and leaves the
  status as it was: \<open>Ready\<close> stays \<open>Ready\<close> and \<open>Running\<close> stays \<open>Running\<close>.
\<close>

theorem prompt_tick_without_AutoYes:
  assumes "Instance_Started i" and "\<not> Instance_Paused i" and "\<not> AutoYes i"
      and "capture_pane e (sanitizedName (tmuxSession i)) = Inr c"
      and "monitor (tmuxSession i) = Some m" and "prevOutputHash m = hash c"
      and "Contains c ''Do you want''"
  shows "\<exists>i1 w1. tickInstance e d i w = Some (i1, w1)
           \<and> tmuxSession i1 = tmuxSession i
           \<and> pty_bytes (tmuxSession i1) = pty_bytes (tmuxSession i)
           \<and> Status i1 = Status i"
  using assms
  by (auto simp: tickInstance_def Instance_HasUpdated_def HasUpdated_unchanged
        Instance_TapEnter_def UpdateDiffStats_def split: sum.splits)

theorem prompt_tick_without_AutoYes_witness:
  "\<exists>i1 w1. tickInstance demo_env demo_diff (demo_instance\<lparr>Status := Ready\<rparr>) demo_world =
              Some (i1, w1)
       \<and> tmuxSession i1 = demo_seen \<and> pty_bytes (tmuxSession i1) = [] \<and> Status i1 = Ready"
  using prompt_tick_without_AutoYes[of "demo_instance\<lparr>Status := Ready\<rparr>" demo_env demo_content
      "\<lparr>prevOutputHash = hash demo_content\<rparr>" demo_diff demo_world]
  by (simp add: Instance_Started_def Instance_Paused_def demo_instance_def demo_seen_def
        demo_session_def Restore_def demo_env_def demo_content_def pty_bytes_def)



text \<open>
  C3, as stated, fails. When the capture fails, \<open>HasUpdated\<close> logs the error and answers
  \<open>(false, false)\<close>, and the tick then sets the status: the instance \<open>demo_instance\<close>,
  whose status was \<open>Running\<close>, is \<open>Ready\<close> after the tick.
\<close>

theorem failed_capture_changes_status:
  "Instance_Started demo_instance \<and> \<not> Instance_Paused demo_instance
   \<and> Status demo_instance = Running
   \<and> (\<exists>i1 w1. tickInstance (demo_env\<lparr>capture_pane := (\<lambda>name. Inl ''exit status 1'')\<rparr>) demo_diff
                  demo_instance demo_world = Some (i1, w1)
          \<and> Status i1 = Ready \<and> Status i1 \<noteq> Status demo_instance)"
  by (simp add: tickInstance_def Instance_HasUpdated_def HasUpdated_def CapturePaneContent_def
        SetStatus_def UpdateDiffStats_def Instance_Started_def Instance_Paused_def
        demo_instance_def demo_env_def demo_diff_def)

text \<open>
  C3, amended. If capturing the pane content fails during the tick of a started,
  non-paused instance, the error is written to the error log and the tick sets the status
  of the instance to \<open>Ready\<close> (never to \<open>Running\<close>); the session, with its pty and its
  stored digest, is left as it was, and the tick goes on to the diff statistics.
\<close>

theorem failed_capture_tick:
  assumes "Instance_Started i" and "\<not> Instance_Paused i"
      and "capture_pane e (sanitizedName (tmuxSession i)) = Inl err"
  shows "\<exists>i1 w1. tickInstance e d i w = Some (i1, w1)
           \<and> Status i1 = Ready
           \<and> tmuxSession i1 = tmuxSession i
           \<and> (ErrorLog, ''error capturing pane content in status monitor: '' @
                 ''error capturing pane content: '' @ err) \<in> set (logged w1)"
  using assms
  by (auto simp: tickInstance_def Instance_HasUpdated_def HasUpdated_capture_failed SetStatus_def
        UpdateDiffStats_def split: sum.splits)

theorem failed_capture_tick_witness:
  "\<exists>i1 w1. tickInstance (demo_env\<lparr>capture_pane := (\<lambda>name. Inl ''exit status 1'')\<rparr>) demo_diff
              demo_instance demo_world = Some (i1, w1)
       \<and> Status i1 = Ready \<and> tmuxSession i1 = demo_seen
       \<and> (ErrorLog, ''error capturing pane content in status monitor: '' @
             ''error capturing pane content: '' @ ''exit status 1'') \<in> set (logged w1)"
  using failed_capture_tick[of demo_instance
      "demo_env\<lparr>capture_pane := (\<lambda>name. Inl ''exit status 1'')\<rparr>" "''exit status 1''"
      demo_diff demo_world]
  by (simp add: Instance_Started_def Instance_Paused_def demo_instance_def demo_env_def)

section \<open>The key handler\<close>

lemma over_limit_error_text:
  "over_limit_error = ''you can'' @ [CHR 0x27] @ ''t create more than 10 instances''"
  by (simp add: over_limit_error_def GlobalInstanceLimit_def itoa_10)

text \<open>
  The first delivery of a key only marks it in the menu and sends it again: the instances,
  the state and the error box are what they were.
\<close>

lemma handleKeyPress_first_delivery:
  assumes "\<not> keySent m" and "state m \<noteq> statePrompt"
  shows "\<exists>m1 c. handleKeyPress a m msg = Some (m1, c) \<and> lst m1 = lst m \<and> state m1 = state m
            \<and> errBox m1 = errBox m \<and> keySent m1
            \<and> (c = Resend msg \<or> c = Batch [Resend msg, KeyupAfter500ms])"
  using assms by (auto simp: handleKeyPress_def Let_def split: option.splits)

text \<open>
  C7. In the default state, for a key bound to \<open>KeyNew\<close> or \<open>KeyPrompt\<close>: with
  \<open>GlobalInstanceLimit = 10\<close> or more instances the handler only shows the error "you
  can't create more than 10 instances" (on the second delivery of the key; the first
  delivery changes neither the list nor the state), so no instance is created; and in
  every case a list of at most 10 instances has at most 10 instances afterwards.
\<close>

theorem create_over_limit:
  assumes "state m = stateDefault"
      and "GlobalKeyStringsMap a (msg_String msg) = Some KeyNew
           \<or> GlobalKeyStringsMap a (msg_String msg) = Some KeyPrompt"
      and "msg_String msg \<noteq> ''ctrl+c''" and "msg_String msg \<noteq> ''q''"
  shows "(GlobalInstanceLimit \<le> NumInstances (lst m) \<and> keySent m \<longrightarrow>
            handleKeyPress a m msg =
              Some (m\<lparr>keySent := False, errBox := Some over_limit_error\<rparr>, HideErrAfter3s))
       \<and> (\<not> keySent m \<longrightarrow>
            (\<exists>m1 c. handleKeyPress a m msg = Some (m1, c) \<and> lst m1 = lst m
                \<and> state m1 = stateDefault \<and> keySent m1))
       \<and> (\<exists>m1 c. handleKeyPress a m msg = Some (m1, c)
              \<and> (NumInstances (lst m) \<le> GlobalInstanceLimit \<longrightarrow>
                    NumInstances (lst m1) \<le> GlobalInstanceLimit))
       \<and> GlobalInstanceLimit = 10
       \<and> over_limit_error = ''you can'' @ [CHR 0x27] @ ''t create more than 10 instances''"
  using assms
  by (auto simp: handleKeyPress_def handleKeyPress_default_def handleKeyPress_create_def Let_def
        showErrorMessageForShortTime_def NumInstances_def AddInstance_def SetSelectedInstance_def
        over_limit_error_text
        split: option.splits sum.splits)
     (simp_all add: GlobalInstanceLimit_def)

theorem create_over_limit_witness:
  "handleKeyPress demo_app (demo_home stateDefault (replicate 10 demo_instance))
       (demo_key tea_KeyRunes ''n'') =
     Some ((demo_home stateDefault (replicate 10 demo_instance))
             \<lparr>keySent := False,
              errBox := Some (''you can'' @ [CHR 0x27] @ ''t create more than 10 instances'')\<rparr>,
           HideErrAfter3s)
   \<and> handleKeyPress demo_app (demo_home stateDefault (replicate 10 demo_instance))
       (demo_key tea_KeyRunes ''N'') =
     Some ((demo_home stateDefault (replicate 10 demo_instance))
             \<lparr>keySent := False,
              errBox := Some (''you can'' @ [CHR 0x27] @ ''t create more than 10 instances'')\<rparr>,
           HideErrAfter3s)"
  using create_over_limit[of "demo_home stateDefault (replicate 10 demo_instance)" demo_app
      "demo_key tea_KeyRunes ''n''"]
    create_over_limit[of "demo_home stateDefault (replicate 10 demo_instance)" demo_app
      "demo_key tea_KeyRunes ''N''"]
  by (simp add: demo_home_def demo_app_def demo_key_def NumInstances_def GlobalInstanceLimit_def
        over_limit_error_text)










end
